theory Spec2Isabelle
  imports Complex_Main
begin

section \<open>Dates\<close>

text \<open>
  A JavaScript \<^verbatim>\<open>Date\<close> is its \<^verbatim>\<open>getTime()\<close> value: milliseconds since the epoch.
  \<^verbatim>\<open>new Date(d)\<close> of a date is the same instant. The backend's local time is UTC
  (the spec, 4.3: "UTC day boundaries"), so \<^verbatim>\<open>setHours(0, 0, 0, 0)\<close> goes back to the
  last multiple of one day and \<^verbatim>\<open>setDate(getDate() + 1)\<close> adds one day.
\<close>

type_synonym date = int

definition msPerDay :: int where
  "msPerDay = 1000 * 3600 * 24"

definition startOfDay :: "date \<Rightarrow> date" where
  \<comment> \<open>\<^verbatim>\<open>d.setHours(0, 0, 0, 0)\<close>\<close>
  "startOfDay d = d - d mod msPerDay"

definition calculateNights :: "date \<Rightarrow> date \<Rightarrow> int" where
  \<comment> \<open>\<^verbatim>\<open>ReservationService.calculateNights\<close>, and the same body in \<^verbatim>\<open>ReservationForm.js\<close>\<close>
  "calculateNights checkIn checkOut =
     (let checkInDate = checkIn;
          checkOutDate = checkOut;
          timeDiff = checkOutDate - checkInDate;
          nights = \<lceil>real_of_int timeDiff / real_of_int (1000 * 3600 * 24)\<rceil>
      in nights)"

definition nights_spec :: "date \<Rightarrow> date \<Rightarrow> int" where
  \<comment> \<open>The spec's wording (4.3, 8): the ceiling of the difference in days,
      "after zeroing time components" of both dates.\<close>
  "nights_spec checkIn checkOut =
     \<lceil>real_of_int (startOfDay checkOut - startOfDay checkIn) / 86400000\<rceil>"

section \<open>The collections\<close>

text \<open>
  The items of the collections of \<^verbatim>\<open>backend/collections.js\<close>, with the fields that the
  reservation service reads or writes. An \<^verbatim>\<open>_id\<close> is an opaque unique key, here a
  natural number (field \<open>ident\<close>); amounts of money are integers.
\<close>

type_synonym item_id = nat

record cottage =
  ident :: item_id
  maxAdults :: int
  maxChildren :: int
  basePricePerNight :: int
  isActive :: bool

record package =
  ident :: item_id
  price :: int
  includesSafari :: bool
  safariCount :: int

text \<open>The object that the endpoints hand to \<^verbatim>\<open>ReservationService.createBooking\<close>.\<close>

record bookingData =
  cottageId :: item_id
  packageId :: item_id
  checkInDate :: date
  checkOutDate :: date
  adults :: int
  children :: int
  customerInfo :: "(string \<times> string) list"
  specialRequests :: string

text \<open>A stored booking: \<^verbatim>\<open>{...bookingData, totalCost, status, ...}\<close> and its \<^verbatim>\<open>_id\<close>.\<close>

record booking = bookingData +
  ident :: item_id
  totalCost :: int
  status :: string
  paymentStatus :: string
  createdDate :: date
  updatedDate :: date

record availabilityRecord =
  cottageId :: item_id
  date :: date
  isAvailable :: bool
  bookingId :: "item_id option"
  createdDate :: date
  updatedDate :: date

record safariBooking =
  bookingId :: item_id
  safariDate :: date
  safariTime :: string
  status :: string
  safariType :: string
  createdDate :: date
  updatedDate :: date

text \<open>One entry of \<^verbatim>\<open>safariData\<close>: \<^verbatim>\<open>{date, time, type?}\<close>.\<close>

record safari =
  date :: date
  time :: string
  type :: "string option"

text \<open>
  The document store behind \<^verbatim>\<open>wixData\<close>: each collection is the list of its items in
  insertion order, and \<open>nextId\<close> is the next unused \<^verbatim>\<open>_id\<close>.
\<close>

record store =
  cottages :: "cottage list"
  packages :: "package list"
  bookings :: "booking list"
  availability :: "availabilityRecord list"
  safariBookings :: "safariBooking list"
  nextId :: item_id

text \<open>
  Every failure of the modelled code, classified as the spec's taxonomy (7) does. The code
  throws a plain \<^verbatim>\<open>Error\<close> with a message, or reads a property of \<^verbatim>\<open>null\<close>.
\<close>

datatype validation =
    MaxAdults int
    \<comment> \<open>\<^verbatim>\<open>Error(`Maximum ${cottage.maxAdults} adults allowed per cottage`)\<close>\<close>
  | MissingParameters
    \<comment> \<open>\<^verbatim>\<open>'Missing required booking parameters'\<close>, \<^verbatim>\<open>'Missing required parameters'\<close>\<close>
  | AdultRequired
    \<comment> \<open>\<^verbatim>\<open>Error('At least one adult is required')\<close>\<close>

datatype error =
    ValidationError validation
  | NotFound
    \<comment> \<open>\<^verbatim>\<open>'Cottage or package not found'\<close>\<close>
  | Conflict
    \<comment> \<open>\<^verbatim>\<open>'Selected dates are not available for this cottage'\<close>\<close>
  | UpdateFailed
    \<comment> \<open>\<^verbatim>\<open>Error('Failed to update booking status')\<close>\<close>
  | TypeError
    \<comment> \<open>a property read on \<^verbatim>\<open>null\<close>, the result of \<^verbatim>\<open>wixData.get\<close> on an unknown id\<close>

section \<open>The store's operations\<close>

definition get_cottage :: "store \<Rightarrow> item_id \<Rightarrow> cottage option" where
  \<comment> \<open>\<^verbatim>\<open>wixData.get(COLLECTIONS.COTTAGES, id)\<close>: the item, or \<^verbatim>\<open>null\<close>\<close>
  "get_cottage s i = find (\<lambda>c. cottage.ident c = i) (cottages s)"

definition getPackageById :: "store \<Rightarrow> item_id \<Rightarrow> package option" where
  \<comment> \<open>\<^verbatim>\<open>wixData.get(COLLECTIONS.PACKAGES, packageId)\<close>\<close>
  "getPackageById s pid = find (\<lambda>p. package.ident p = pid) (packages s)"

definition get_booking :: "store \<Rightarrow> item_id \<Rightarrow> booking option" where
  \<comment> \<open>the booking with that \<^verbatim>\<open>_id\<close> in \<^verbatim>\<open>COLLECTIONS.BOOKINGS\<close>, if there is one\<close>
  "get_booking s i = find (\<lambda>b. booking.ident b = i) (bookings s)"

section \<open>Availability\<close>

record availabilityResult =
  isAvailable :: bool
  conflictingDates :: "date list option"
  cottage :: "cottage option"

definition conflictingBookings :: "store \<Rightarrow> item_id \<Rightarrow> date \<Rightarrow> date \<Rightarrow> availabilityRecord list" where
  \<comment> \<open>the query \<^verbatim>\<open>.eq('cottageId', cottageId).gte('date', startDate).lt('date', endDate)
      .eq('isAvailable', false)\<close>\<close>
  "conflictingBookings s cid startDate endDate =
     filter (\<lambda>r. availabilityRecord.cottageId r = cid \<and> startDate \<le> availabilityRecord.date r
                 \<and> availabilityRecord.date r < endDate \<and> availabilityRecord.isAvailable r = False)
       (availability s)"

definition checkAvailability :: "store \<Rightarrow> item_id \<Rightarrow> date \<Rightarrow> date \<Rightarrow> availabilityResult" where
  "checkAvailability s cid checkIn checkOut =
     (let startDate = startOfDay checkIn;
          endDate = startOfDay checkOut;
          items = conflictingBookings s cid startDate endDate
      in if length items > 0
         then \<lparr>isAvailable = False,
               conflictingDates = Some (map availabilityRecord.date items),
               cottage = None\<rparr>
         else (case get_cottage s cid of
                 None \<Rightarrow> \<lparr>isAvailable = False, conflictingDates = None, cottage = None\<rparr>
               | Some c \<Rightarrow>
                   if \<not> cottage.isActive c
                   then \<lparr>isAvailable = False, conflictingDates = None, cottage = None\<rparr>
                   else \<lparr>isAvailable = True, conflictingDates = None, cottage = Some c\<rparr>))"

function updateAvailability_loop ::
  "date \<Rightarrow> item_id \<Rightarrow> item_id \<Rightarrow> bool \<Rightarrow> date \<Rightarrow> date \<Rightarrow> availabilityRecord list
     \<Rightarrow> availabilityRecord list" where
  "updateAvailability_loop now cid bid available d endD availabilityRecords =
     (if d < endD
      then updateAvailability_loop now cid bid available (d + msPerDay) endD
             (availabilityRecords @
                [\<lparr>availabilityRecord.cottageId = cid,
                  availabilityRecord.date = d,
                  availabilityRecord.isAvailable = available,
                  availabilityRecord.bookingId = (if available then None else Some bid),
                  availabilityRecord.createdDate = now,
                  availabilityRecord.updatedDate = now\<rparr>])
      else availabilityRecords)"
  by pat_completeness auto
termination
  by (relation "measure (\<lambda>(now, cid, bid, available, d, endD, rs). nat (endD - d))")
     (auto simp: msPerDay_def)

declare updateAvailability_loop.simps [simp del]

definition updateAvailability ::
  "date \<Rightarrow> store \<Rightarrow> item_id \<Rightarrow> date \<Rightarrow> date \<Rightarrow> item_id \<Rightarrow> bool \<Rightarrow> store" where
  \<comment> \<open>the loop, then \<^verbatim>\<open>wixData.bulkInsert(COLLECTIONS.AVAILABILITY, availabilityRecords)\<close>\<close>
  "updateAvailability now s cid startDate endDate bid available =
     (let start = startDate;
          endD = endDate;
          availabilityRecords =
            updateAvailability_loop now cid bid available start endD []
      in s\<lparr>availability := availability s @ availabilityRecords\<rparr>)"

section \<open>Bookings\<close>

definition insert_booking :: "store \<Rightarrow> booking \<Rightarrow> booking \<times> store" where
  \<comment> \<open>\<^verbatim>\<open>wixData.insert(COLLECTIONS.BOOKINGS, booking)\<close>: the store gives the item its
      \<^verbatim>\<open>_id\<close>, whatever \<open>ident\<close> held before, and returns the stored item\<close>
  "insert_booking s b =
     (let created = b\<lparr>booking.ident := nextId s\<rparr>
      in (created, s\<lparr>bookings := bookings s @ [created], nextId := Suc (nextId s)\<rparr>))"

definition createBooking :: "date \<Rightarrow> store \<Rightarrow> bookingData \<Rightarrow> (error + booking) \<times> store" where
  "createBooking now s bd =
     (case get_cottage s (bookingData.cottageId bd) of
        None \<Rightarrow> (Inl TypeError, s)
      | Some c \<Rightarrow>
          if adults bd > maxAdults c
          then (Inl (ValidationError (MaxAdults (maxAdults c))), s)
          else (case getPackageById s (packageId bd) of
                  None \<Rightarrow> (Inl TypeError, s)
                | Some packageData \<Rightarrow>
                    (let nights = calculateNights (checkInDate bd) (checkOutDate bd);
                         roomCost = basePricePerNight c * nights;
                         packageCost = price packageData;
                         total = roomCost + packageCost;
                         b = \<lparr>bookingData.cottageId = bookingData.cottageId bd,
                              packageId = packageId bd,
                              checkInDate = checkInDate bd,
                              checkOutDate = checkOutDate bd,
                              adults = adults bd,
                              children = children bd,
                              customerInfo = customerInfo bd,
                              specialRequests = specialRequests bd,
                              booking.ident = 0,
                              totalCost = total,
                              booking.status = ''Pending'',
                              paymentStatus = ''Pending'',
                              booking.createdDate = now,
                              booking.updatedDate = now\<rparr>;
                         (createdBooking, s1) = insert_booking s b;
                         s2 = updateAvailability now s1 (bookingData.cottageId bd)
                                (checkInDate bd) (checkOutDate bd) (booking.ident createdBooking) False
                     in (Inr createdBooking, s2))))"

definition update_booking ::
  "store \<Rightarrow> item_id \<Rightarrow> string \<Rightarrow> date \<Rightarrow> booking option \<times> store" where
  \<comment> \<open>Modelled from the spec: \<^verbatim>\<open>wixData.update(COLLECTIONS.BOOKINGS, {_id, status, updatedDate})\<close>
      is the platform's call, not under src/. The spec (4.4) has it overwrite status and
      updatedDate of the booking with that \<^verbatim>\<open>_id\<close> and return the updated booking; with
      no such booking the call fails (\<open>None\<close>) and stores nothing.\<close>
  "update_booking s bid newStatus newDate =
     (case get_booking s bid of
        None \<Rightarrow> (None, s)
      | Some b \<Rightarrow>
          (let updated = b\<lparr>booking.status := newStatus, booking.updatedDate := newDate\<rparr>
           in (Some updated,
               s\<lparr>bookings := map (\<lambda>x. if booking.ident x = bid then updated else x)
                                 (bookings s)\<rparr>)))"

definition updateBookingStatus ::
  "date \<Rightarrow> store \<Rightarrow> item_id \<Rightarrow> string \<Rightarrow> (error + booking) \<times> store" where
  \<comment> \<open>a failure of the update is caught and thrown again as
      \<^verbatim>\<open>Error('Failed to update booking status')\<close>\<close>
  "updateBookingStatus now s bid newStatus =
     (case update_booking s bid newStatus now of
        (None, s') \<Rightarrow> (Inl UpdateFailed, s')
      | (Some updatedBooking, s') \<Rightarrow> (Inr updatedBooking, s'))"

section \<open>Safari bookings\<close>

definition safariTypeOrStandard :: "string option \<Rightarrow> string" where
  \<comment> \<open>\<^verbatim>\<open>safari.type || 'Standard'\<close>: a missing or empty type is falsy\<close>
  "safariTypeOrStandard t =
     (case t of None \<Rightarrow> ''Standard'' | Some x \<Rightarrow> if x = [] then ''Standard'' else x)"

definition createSafariBookings ::
  "date \<Rightarrow> store \<Rightarrow> item_id \<Rightarrow> safari list \<Rightarrow> (error + nat) \<times> store" where
  \<comment> \<open>returns what \<^verbatim>\<open>wixData.bulkInsert\<close> reports: the number of items inserted\<close>
  "createSafariBookings now s bid safariData =
     (let created =
            map (\<lambda>safari. \<lparr>safariBooking.bookingId = bid,
                            safariDate = safari.date safari,
                            safariTime = time safari,
                            safariBooking.status = ''Pending'',
                            safariType = safariTypeOrStandard (type safari),
                            safariBooking.createdDate = now,
                            safariBooking.updatedDate = now\<rparr>) safariData
      in (Inr (length created), s\<lparr>safariBookings := safariBookings s @ created\<rparr>))"

section \<open>The endpoints\<close>

text \<open>
  The JSON payload of the booking endpoints. A field that is absent (or \<^verbatim>\<open>null\<close>, or an
  empty string) is \<open>None\<close>; dates arrive as the instants \<^verbatim>\<open>new Date(...)\<close> makes of them.
\<close>

record request =
  cottageId :: "item_id option"
  packageId :: "item_id option"
  checkInDate :: "date option"
  checkOutDate :: "date option"
  adults :: "int option"
  children :: "int option"
  customerInfo :: "(string \<times> string) list option"
  specialRequests :: "string option"

datatype 'a response =
    Success 'a
    \<comment> \<open>\<^verbatim>\<open>{success: true, data: ...}\<close>\<close>
  | Failure error
    \<comment> \<open>\<^verbatim>\<open>{success: false, error: ...}\<close>\<close>

definition falsy :: "int option \<Rightarrow> bool" where
  \<comment> \<open>\<^verbatim>\<open>!adults\<close>: absent, or the number 0\<close>
  "falsy n = (n = None \<or> n = Some 0)"

definition orElse :: "'a option \<Rightarrow> 'a \<Rightarrow> 'a" where
  \<comment> \<open>\<^verbatim>\<open>x || dflt\<close> for a field that is absent\<close>
  "orElse x dflt = (case x of None \<Rightarrow> dflt | Some v \<Rightarrow> v)"

definition toBookingData ::
  "item_id \<Rightarrow> item_id \<Rightarrow> date \<Rightarrow> date \<Rightarrow> int \<Rightarrow> request \<Rightarrow> bookingData" where
  \<comment> \<open>the \<^verbatim>\<open>bookingData\<close> object that both endpoints build\<close>
  "toBookingData cid pid checkIn checkOut a req =
     \<lparr>bookingData.cottageId = cid,
      bookingData.packageId = pid,
      bookingData.checkInDate = checkIn,
      bookingData.checkOutDate = checkOut,
      bookingData.adults = a,
      bookingData.children = orElse (request.children req) 0,
      bookingData.customerInfo = orElse (request.customerInfo req) [],
      bookingData.specialRequests = orElse (request.specialRequests req) []\<rparr>"

definition webMethods_createBooking :: "date \<Rightarrow> store \<Rightarrow> request \<Rightarrow> booking response \<times> store" where
  \<comment> \<open>\<^verbatim>\<open>createBooking\<close> of \<^verbatim>\<open>backend/webMethods.js\<close>\<close>
  "webMethods_createBooking now s req =
     (case (request.cottageId req, request.packageId req, request.checkInDate req,
            request.checkOutDate req) of
        (Some cid, Some pid, Some checkIn, Some checkOut) \<Rightarrow>
          if falsy (request.adults req) \<or> request.customerInfo req = None
          then (Failure (ValidationError MissingParameters), s)
          else (let a = orElse (request.adults req) 0 in
                if a < 1 then (Failure (ValidationError AdultRequired), s)
                else if \<not> availabilityResult.isAvailable (checkAvailability s cid checkIn checkOut)
                then (Failure Conflict, s)
                else (case createBooking now s (toBookingData cid pid checkIn checkOut a req) of
                        (Inr createdBooking, s') \<Rightarrow> (Success createdBooking, s')
                      | (Inl e, s') \<Rightarrow> (Failure e, s')))
      | _ \<Rightarrow> (Failure (ValidationError MissingParameters), s))"

definition post_createBooking ::
  "date \<Rightarrow> store \<Rightarrow> request option \<Rightarrow> (nat \<times> booking response) \<times> store" where
  \<comment> \<open>\<^verbatim>\<open>post_createBooking\<close> of \<^verbatim>\<open>backend/http-functions.js\<close>: the status code and the body;
      the payload is \<open>None\<close> when the body does not parse\<close>
  "post_createBooking now s payload =
     (case payload of
        None \<Rightarrow> ((400, Failure (ValidationError MissingParameters)), s)
      | Some req \<Rightarrow>
          (case (request.cottageId req, request.packageId req, request.checkInDate req,
                 request.checkOutDate req) of
             (Some cid, Some pid, Some checkIn, Some checkOut) \<Rightarrow>
               if falsy (request.adults req)
               then ((400, Failure (ValidationError MissingParameters)), s)
               else if \<not> availabilityResult.isAvailable (checkAvailability s cid checkIn checkOut)
               then ((200, Failure Conflict), s)
               else (case createBooking now s
                            (toBookingData cid pid checkIn checkOut (orElse (request.adults req) 0) req) of
                       (Inr created, s') \<Rightarrow> ((200, Success created), s')
                     | (Inl e, s') \<Rightarrow> ((500, Failure e), s'))
           | _ \<Rightarrow> ((400, Failure (ValidationError MissingParameters)), s)))"

record costBreakdown =
  roomCost :: int
  packageCost :: int
  totalCost :: int
  nights :: int
  costPerNight :: int

definition calculateBookingCost :: "store \<Rightarrow> request \<Rightarrow> costBreakdown response" where
  \<comment> \<open>\<^verbatim>\<open>calculateBookingCost\<close> of \<^verbatim>\<open>backend/webMethods.js\<close>\<close>
  "calculateBookingCost s req =
     (case (request.cottageId req, request.packageId req, request.checkInDate req,
            request.checkOutDate req) of
        (Some cid, Some pid, Some checkIn, Some checkOut) \<Rightarrow>
          (case (get_cottage s cid, getPackageById s pid) of
             (Some c, Some packageData) \<Rightarrow>
               (let n = calculateNights checkIn checkOut;
                    room = basePricePerNight c * n;
                    pkg = price packageData;
                    total = room + pkg
                in Success \<lparr>roomCost = room, packageCost = pkg, totalCost = total, nights = n,
                            costPerNight = basePricePerNight c\<rparr>)
           | _ \<Rightarrow> Failure NotFound)
      | _ \<Rightarrow> Failure (ValidationError MissingParameters))"

definition post_calculateBookingCost :: "store \<Rightarrow> request option \<Rightarrow> nat \<times> costBreakdown response" where
  \<comment> \<open>\<^verbatim>\<open>post_calculateBookingCost\<close> of \<^verbatim>\<open>backend/http-functions.js\<close>\<close>
  "post_calculateBookingCost s payload =
     (case payload of
        None \<Rightarrow> (400, Failure (ValidationError MissingParameters))
      | Some req \<Rightarrow>
          (case (request.cottageId req, request.packageId req, request.checkInDate req,
                 request.checkOutDate req) of
             (Some cid, Some pid, Some checkIn, Some checkOut) \<Rightarrow>
               (case (get_cottage s cid, getPackageById s pid) of
                  (Some c, Some packageData) \<Rightarrow>
                    (let n = calculateNights checkIn checkOut;
                         room = basePricePerNight c * n;
                         pkg = price packageData;
                         total = room + pkg
                     in (200, Success \<lparr>roomCost = room, packageCost = pkg, totalCost = total,
                                       nights = n, costPerNight = basePricePerNight c\<rparr>))
                | _ \<Rightarrow> (404, Failure NotFound))
           | _ \<Rightarrow> (400, Failure (ValidationError MissingParameters))))"

section \<open>Two calls at the same time\<close>

text \<open>
  Between its two \<^verbatim>\<open>await\<close>s the web method holds no lock and no transaction, so another
  call can run in between. The two halves of the method, and one such run.
\<close>

definition createBooking_check :: "store \<Rightarrow> request \<Rightarrow> booking response + bookingData" where
  \<comment> \<open>\<^verbatim>\<open>createBooking\<close> of \<^verbatim>\<open>backend/webMethods.js\<close> up to the answer of
      \<^verbatim>\<open>await reservationService.checkAvailability(...)\<close>: the response it returns early
      with, or the \<^verbatim>\<open>bookingData\<close> it goes on with\<close>
  "createBooking_check s req =
     (case (request.cottageId req, request.packageId req, request.checkInDate req,
            request.checkOutDate req) of
        (Some cid, Some pid, Some checkIn, Some checkOut) \<Rightarrow>
          if falsy (request.adults req) \<or> request.customerInfo req = None
          then Inl (Failure (ValidationError MissingParameters))
          else (let a = orElse (request.adults req) 0 in
                if a < 1 then Inl (Failure (ValidationError AdultRequired))
                else if \<not> availabilityResult.isAvailable (checkAvailability s cid checkIn checkOut)
                then Inl (Failure Conflict)
                else Inr (toBookingData cid pid checkIn checkOut a req))
      | _ \<Rightarrow> Inl (Failure (ValidationError MissingParameters)))"

definition createBooking_reserve :: "date \<Rightarrow> store \<Rightarrow> bookingData \<Rightarrow> booking response \<times> store" where
  \<comment> \<open>the rest of it: \<^verbatim>\<open>await reservationService.createBooking(bookingData)\<close> and the
      response made of its result\<close>
  "createBooking_reserve now s bd =
     (case createBooking now s bd of
        (Inr createdBooking, s') \<Rightarrow> (Success createdBooking, s')
      | (Inl e, s') \<Rightarrow> (Failure e, s'))"

definition interleaved ::
  "date \<Rightarrow> date \<Rightarrow> store \<Rightarrow> request \<Rightarrow> request \<Rightarrow> booking response \<times> booking response \<times> store" where
  \<comment> \<open>two calls A and B of the web method that run at the same time, in the order
      check A, check B, reserve A, reserve B: both checks read the store as it was\<close>
  "interleaved nowA nowB s reqA reqB =
     (let checkA = createBooking_check s reqA;
          checkB = createBooking_check s reqB;
          (respA, s1) = (case checkA of Inl r \<Rightarrow> (r, s) | Inr bd \<Rightarrow> createBooking_reserve nowA s bd);
          (respB, s2) = (case checkB of Inl r \<Rightarrow> (r, s1) | Inr bd \<Rightarrow> createBooking_reserve nowB s1 bd)
      in (respA, respB, s2))"

definition created_id :: "booking response \<Rightarrow> item_id option" where
  \<comment> \<open>the \<^verbatim>\<open>_id\<close> of the booking that a successful response carries\<close>
  "created_id r = (case r of Success b \<Rightarrow> Some (booking.ident b) | Failure e \<Rightarrow> None)"

section \<open>Observations and sample data\<close>

definition recordsInRange :: "store \<Rightarrow> item_id \<Rightarrow> date \<Rightarrow> date \<Rightarrow> availabilityRecord list" where
  \<comment> \<open>the AvailabilityRecords of a cottage that are dated in \<open>[startDate, endDate)\<close>\<close>
  "recordsInRange s cid startDate endDate =
     filter (\<lambda>r. availabilityRecord.cottageId r = cid \<and> startDate \<le> availabilityRecord.date r
                 \<and> availabilityRecord.date r < endDate) (availability s)"

definition reserved :: "date \<Rightarrow> item_id \<Rightarrow> item_id \<Rightarrow> date \<Rightarrow> availabilityRecord" where
  \<comment> \<open>the record that \<^verbatim>\<open>updateAvailability(..., bookingId, false)\<close> pushes for one day\<close>
  "reserved now cid bid d =
     \<lparr>availabilityRecord.cottageId = cid, availabilityRecord.date = d,
      availabilityRecord.isAvailable = False, availabilityRecord.bookingId = Some bid,
      availabilityRecord.createdDate = now, availabilityRecord.updatedDate = now\<rparr>"

text \<open>
  The sample data of the setup guide: the Hornbill cottage (two adults, 150 a night) and the
  Honeymoon package (100), and a stay from 2024-06-01 to 2024-06-04 (UTC midnights).
\<close>

definition hornbill :: cottage where
  "hornbill = \<lparr>cottage.ident = 10, maxAdults = 2, maxChildren = 2, basePricePerNight = 150,
                cottage.isActive = True\<rparr>"

definition honeymoon :: package where
  "honeymoon = \<lparr>package.ident = 20, price = 100, includesSafari = True, safariCount = 2\<rparr>"

definition sample_store :: store where
  "sample_store = \<lparr>cottages = [hornbill], packages = [honeymoon], bookings = [],
                    availability = [], safariBookings = [], nextId = 30\<rparr>"

definition sample_stay :: bookingData where
  "sample_stay = \<lparr>bookingData.cottageId = 10, bookingData.packageId = 20,
                   bookingData.checkInDate = 1717200000000, bookingData.checkOutDate = 1717459200000,
                   bookingData.adults = 2, bookingData.children = 0,
                   bookingData.customerInfo = [], bookingData.specialRequests = []\<rparr>"

definition booked_store :: store where
  \<comment> \<open>the store after the sample stay has been booked\<close>
  "booked_store = snd (createBooking 0 sample_store sample_stay)"

definition closed_store :: store where
  \<comment> \<open>the sample store with its cottage deactivated\<close>
  "closed_store = sample_store\<lparr>cottages := [hornbill\<lparr>cottage.isActive := False\<rparr>]\<rparr>"

definition sample_request :: request where
  \<comment> \<open>the payload that asks for the sample stay\<close>
  "sample_request = \<lparr>request.cottageId = Some 10, request.packageId = Some 20,
                      request.checkInDate = Some 1717200000000,
                      request.checkOutDate = Some 1717459200000,
                      request.adults = Some 2, request.children = None,
                      request.customerInfo = Some [(''name'', ''A. Guest'')],
                      request.specialRequests = None\<rparr>"

definition backwards_stay :: bookingData where
  \<comment> \<open>the sample stay with its two dates exchanged\<close>
  "backwards_stay = sample_stay\<lparr>bookingData.checkInDate := 1717459200000,
                                 bookingData.checkOutDate := 1717200000000\<rparr>"

definition unknown_package_stay :: bookingData where
  \<comment> \<open>the same, for a package that the store does not hold\<close>
  "unknown_package_stay = backwards_stay\<lparr>bookingData.packageId := 99\<rparr>"

definition refund_store :: store where
  \<comment> \<open>the sample store with a negative price per night\<close>
  "refund_store = sample_store\<lparr>cottages := [hornbill\<lparr>basePricePerNight := - 150\<rparr>]\<rparr>"

section \<open>Properties\<close>

subsection \<open>Days\<close>

lemma msPerDay_pos: "0 < msPerDay"
  by (simp add: msPerDay_def)

lemma startOfDay_le: "startOfDay d \<le> d"
  by (simp add: startOfDay_def msPerDay_def)

lemma startOfDay_gt: "d < startOfDay d + msPerDay"
  by (simp add: startOfDay_def msPerDay_def)

lemma startOfDay_add: "startOfDay (d + k * msPerDay) = startOfDay d + k * msPerDay"
  by (simp add: startOfDay_def)

lemma startOfDay_mono: "a \<le> b \<Longrightarrow> startOfDay a \<le> startOfDay b"
  unfolding startOfDay_def msPerDay_def
  by (simp add: minus_mod_eq_mult_div zdiv_mono1)

lemma startOfDay_after:
  assumes "a + 2 * msPerDay < e"
  shows "a < startOfDay e"
proof -
  have "startOfDay (a + 2 * msPerDay) \<le> startOfDay e"
    using assms by (intro startOfDay_mono) simp
  then have "startOfDay a + 2 * msPerDay \<le> startOfDay e"
    by (simp add: startOfDay_add)
  moreover have "a < startOfDay a + msPerDay" by (rule startOfDay_gt)
  moreover have "0 < msPerDay" by (rule msPerDay_pos)
  ultimately show ?thesis by linarith
qed

lemma calculateNights_div: "calculateNights checkIn checkOut = - ((checkIn - checkOut) div msPerDay)"
proof -
  have "\<lceil>real_of_int (checkOut - checkIn) / real_of_int msPerDay\<rceil>
          = - ((- (checkOut - checkIn)) div msPerDay)"
    by (rule ceiling_divide_eq_div)
  then show ?thesis
    by (simp add: calculateNights_def msPerDay_def)
qed

lemma nights_three:
  "calculateNights a e = 3 \<longleftrightarrow> a + 2 * msPerDay < e \<and> e \<le> a + 3 * msPerDay"
proof -
  have "(a - e) div 86400000 = - 3 \<longleftrightarrow> a + 172800000 < e \<and> e \<le> a + 259200000"
    by linarith
  then show ?thesis
    by (simp add: calculateNights_div msPerDay_def) linarith
qed

lemma sample_nights: "calculateNights 1717200000000 1717459200000 = 3"
  by (simp add: calculateNights_div msPerDay_def)

lemma nights_eq:
  "calculateNights checkIn checkOut = n \<longleftrightarrow>
     (n - 1) * 86400000 < checkOut - checkIn \<and> checkOut - checkIn \<le> n * 86400000"
proof -
  have "\<lceil>real_of_int (checkOut - checkIn) / 86400000\<rceil> = n \<longleftrightarrow>
          real_of_int n - 1 < real_of_int (checkOut - checkIn) / 86400000
          \<and> real_of_int (checkOut - checkIn) / 86400000 \<le> real_of_int n"
    by (rule ceiling_eq_iff)
  also have "\<dots> \<longleftrightarrow> real_of_int ((n - 1) * 86400000) < real_of_int (checkOut - checkIn)
          \<and> real_of_int (checkOut - checkIn) \<le> real_of_int (n * 86400000)"
    by (simp add: field_simps)
  also have "\<dots> \<longleftrightarrow> (n - 1) * 86400000 < checkOut - checkIn
          \<and> checkOut - checkIn \<le> n * 86400000"
    by (simp only: of_int_less_iff of_int_le_iff)
  finally show ?thesis
    by (simp add: calculateNights_def)
qed

text \<open>
  C3, as the claim states it, fails: \<^verbatim>\<open>calculateNights\<close> does not zero the times of day. From
  2024-06-01 01:00 to 2024-06-02 23:00 it counts two nights, and the days differ by one.
\<close>

theorem calculateNights_not_normalised:
  "calculateNights 1717203600000 1717369200000 \<noteq> nights_spec 1717203600000 1717369200000"
  by (simp add: calculateNights_div nights_spec_def startOfDay_def msPerDay_def)

text \<open>
  C3 (amended): \<^verbatim>\<open>nights(checkIn, checkOut)\<close> is the ceiling of
  \<open>(checkOut - checkIn) / 86400000\<close> on the two instants as they are given, with no
  normalisation: the one \<open>n\<close> with \<open>n - 1\<close> days \<open>< checkOut - checkIn \<le> n\<close> days. It
  is the spec's count when both instants are midnights, and from 2024-06-01 to 2024-06-04
  it is 3.
\<close>

theorem calculateNights_raw:
  "calculateNights checkIn checkOut = \<lceil>real_of_int (checkOut - checkIn) / 86400000\<rceil>
   \<and> (calculateNights checkIn checkOut = n \<longleftrightarrow>
         (n - 1) * 86400000 < checkOut - checkIn \<and> checkOut - checkIn \<le> n * 86400000)
   \<and> (startOfDay checkIn = checkIn \<and> startOfDay checkOut = checkOut
        \<longrightarrow> calculateNights checkIn checkOut = nights_spec checkIn checkOut)
   \<and> calculateNights 1717200000000 1717459200000 = 3"
proof -
  have "calculateNights checkIn checkOut = \<lceil>real_of_int (checkOut - checkIn) / 86400000\<rceil>"
    by (simp add: calculateNights_def)
  moreover have "startOfDay checkIn = checkIn \<and> startOfDay checkOut = checkOut
        \<longrightarrow> calculateNights checkIn checkOut = nights_spec checkIn checkOut"
    by (simp add: calculateNights_def nights_spec_def)
  ultimately show ?thesis
    using nights_eq [of checkIn checkOut n] sample_nights by blast
qed

theorem calculateNights_raw_witness:
  "startOfDay 1717200000000 = 1717200000000 \<and> startOfDay 1717459200000 = 1717459200000
   \<and> nights_spec 1717200000000 1717459200000 = 3"
  using calculateNights_raw [of 1717200000000 1717459200000 3]
  by (simp add: startOfDay_def msPerDay_def)

subsection \<open>The availability loop\<close>

lemma loop_stop:
  "\<not> d < endD \<Longrightarrow> updateAvailability_loop now cid bid available d endD rs = rs"
  by (simp add: updateAvailability_loop.simps)

lemma loop_step:
  "d < endD \<Longrightarrow> updateAvailability_loop now cid bid available d endD rs =
     updateAvailability_loop now cid bid available (d + msPerDay) endD
       (rs @ [\<lparr>availabilityRecord.cottageId = cid,
                  availabilityRecord.date = d,
                  availabilityRecord.isAvailable = available,
                  availabilityRecord.bookingId = (if available then None else Some bid),
                  availabilityRecord.createdDate = now,
                  availabilityRecord.updatedDate = now\<rparr>])"
  by (subst updateAvailability_loop.simps) simp

lemma loop_three:
  assumes "a + 2 * msPerDay < e" and "e \<le> a + 3 * msPerDay"
  shows "updateAvailability_loop now cid bid False a e rs =
           rs @ [reserved now cid bid a, reserved now cid bid (a + msPerDay),
                 reserved now cid bid (a + 2 * msPerDay)]"
proof -
  have D: "0 < msPerDay" by (rule msPerDay_pos)
  have 1: "a < e" using assms D by linarith
  have 2: "a + msPerDay < e" using assms D by linarith
  have 3: "a + 2 * msPerDay < e" using assms by linarith
  have 4: "\<not> a + 3 * msPerDay < e" using assms by linarith
  have s2: "a + msPerDay + msPerDay = a + 2 * msPerDay" by simp
  have s3: "a + 2 * msPerDay + msPerDay = a + 3 * msPerDay" by simp
  show ?thesis
    unfolding loop_step [OF 1] loop_step [OF 2] s2 loop_step [OF 3] s3 loop_stop [OF 4]
    by (simp add: reserved_def)
qed

lemma loop_prefix:
  "\<exists>ys. updateAvailability_loop now cid bid available d endD rs = rs @ ys"
proof (induction now cid bid available d endD rs rule: updateAvailability_loop.induct)
  case (1 now cid bid available d endD rs)
  show ?case
  proof (cases "d < endD")
    case True
    with 1 show ?thesis by (auto simp: loop_step)
  next
    case False
    then show ?thesis by (simp add: loop_stop)
  qed
qed

lemma loop_first:
  assumes "d < endD"
  shows "reserved now cid bid d \<in> set (updateAvailability_loop now cid bid False d endD rs)"
proof -
  obtain ys where "updateAvailability_loop now cid bid False (d + msPerDay) endD
                     (rs @ [reserved now cid bid d]) = (rs @ [reserved now cid bid d]) @ ys"
    using loop_prefix by blast
  then show ?thesis
    by (simp add: loop_step [OF assms] reserved_def)
qed

lemma sample_loop:
  "updateAvailability_loop now 10 bid False 1717200000000 1717459200000 [] =
     map (reserved now 10 bid) [1717200000000, 1717286400000, 1717372800000]"
  by (subst loop_three) (simp_all add: msPerDay_def)

subsection \<open>Creating a booking\<close>

lemma createBooking_success:
  assumes "get_cottage s (bookingData.cottageId bd) = Some c"
    and "bookingData.adults bd \<le> maxAdults c"
    and "getPackageById s (bookingData.packageId bd) = Some p"
  shows "createBooking now s bd =
     (let b = \<lparr>bookingData.cottageId = bookingData.cottageId bd,
                packageId = bookingData.packageId bd,
                checkInDate = bookingData.checkInDate bd,
                checkOutDate = bookingData.checkOutDate bd,
                adults = bookingData.adults bd,
                children = bookingData.children bd,
                customerInfo = bookingData.customerInfo bd,
                specialRequests = bookingData.specialRequests bd,
                booking.ident = nextId s,
                totalCost = basePricePerNight c
                    * calculateNights (bookingData.checkInDate bd) (bookingData.checkOutDate bd)
                  + price p,
                booking.status = ''Pending'',
                paymentStatus = ''Pending'',
                booking.createdDate = now,
                booking.updatedDate = now\<rparr>
      in (Inr b, s\<lparr>bookings := bookings s @ [b], nextId := Suc (nextId s),
                availability := availability s @
                   updateAvailability_loop now (bookingData.cottageId bd) (nextId s) False
                     (bookingData.checkInDate bd) (bookingData.checkOutDate bd) []\<rparr>))"
  using assms
  by (simp add: createBooking_def insert_booking_def updateAvailability_def Let_def)

lemma createBooking_Inr:
  assumes "createBooking now s bd = (Inr b, s')"
  shows "\<exists>c p. get_cottage s (bookingData.cottageId bd) = Some c
              \<and> bookingData.adults bd \<le> maxAdults c
              \<and> getPackageById s (bookingData.packageId bd) = Some p"
  using assms
  by (auto simp: createBooking_def split: option.splits if_splits)

lemma createBooking_effect:
  assumes ok: "createBooking now s bd = (Inr b, s')"
  shows "booking.ident b = nextId s" and "nextId s' = Suc (nextId s)"
    and "bookings s' = bookings s @ [b]"
    and "cottages s' = cottages s" and "packages s' = packages s"
    and "availability s' = availability s @
           updateAvailability_loop now (bookingData.cottageId bd) (nextId s) False
             (bookingData.checkInDate bd) (bookingData.checkOutDate bd) []"
proof -
  from createBooking_Inr [OF ok] obtain c p where
    c: "get_cottage s (bookingData.cottageId bd) = Some c" and a: "bookingData.adults bd \<le> maxAdults c"
    and p: "getPackageById s (bookingData.packageId bd) = Some p"
    by blast
  from ok show "booking.ident b = nextId s" and "nextId s' = Suc (nextId s)"
    and "bookings s' = bookings s @ [b]"
    and "cottages s' = cottages s" and "packages s' = packages s"
    and "availability s' = availability s @
           updateAvailability_loop now (bookingData.cottageId bd) (nextId s) False
             (bookingData.checkInDate bd) (bookingData.checkOutDate bd) []"
    by (auto simp: createBooking_success [OF c a p] Let_def)
qed

lemma createBooking_succeeds:
  assumes "get_cottage s (bookingData.cottageId bd) = Some c"
    and "bookingData.adults bd \<le> maxAdults c"
    and "getPackageById s (bookingData.packageId bd) = Some p"
  shows "\<exists>b s'. createBooking now s bd = (Inr b, s')"
  by (simp add: createBooking_success [OF assms] Let_def)

lemma createBooking_reserves_first:
  assumes ok: "createBooking now s bd = (Inr b, s')"
    and lt: "bookingData.checkInDate bd < bookingData.checkOutDate bd"
  shows "reserved now (bookingData.cottageId bd) (booking.ident b) (bookingData.checkInDate bd)
           \<in> set (availability s')"
proof -
  from createBooking_Inr [OF ok] obtain c p where
    c: "get_cottage s (bookingData.cottageId bd) = Some c" and a: "bookingData.adults bd \<le> maxAdults c"
    and p: "getPackageById s (bookingData.packageId bd) = Some p"
    by blast
  from ok have b: "booking.ident b = nextId s"
    and s': "availability s' = availability s @
               updateAvailability_loop now (bookingData.cottageId bd) (nextId s) False
                 (bookingData.checkInDate bd) (bookingData.checkOutDate bd) []"
    by (auto simp: createBooking_success [OF c a p] Let_def)
  show ?thesis
    by (simp add: s' b loop_first [OF lt])
qed

lemma sample_create:
  "createBooking now sample_store sample_stay =
     (let b = \<lparr>bookingData.cottageId = 10, packageId = 20, checkInDate = 1717200000000,
                checkOutDate = 1717459200000, adults = 2, children = 0, customerInfo = [],
                specialRequests = [], booking.ident = 30, totalCost = 550,
                booking.status = ''Pending'', paymentStatus = ''Pending'',
                booking.createdDate = now, booking.updatedDate = now\<rparr>
      in (Inr b, sample_store\<lparr>bookings := [b], nextId := 31,
            availability := map (reserved now 10 30) [1717200000000, 1717286400000, 1717372800000]\<rparr>))"
proof -
  have l: "updateAvailability_loop now 10 30 False 1717200000000 1717459200000 [] =
             map (reserved now 10 30) [1717200000000, 1717286400000, 1717372800000]"
    by (subst loop_three) (simp_all add: msPerDay_def)
  have c: "get_cottage sample_store (bookingData.cottageId sample_stay) = Some hornbill"
    and p: "getPackageById sample_store (bookingData.packageId sample_stay) = Some honeymoon"
    and a: "bookingData.adults sample_stay \<le> maxAdults hornbill"
    by (simp_all add: sample_stay_def hornbill_def honeymoon_def sample_store_def
          get_cottage_def getPackageById_def)
  show ?thesis
    unfolding createBooking_success [OF c a p]
    by (simp add: sample_stay_def sample_nights l Let_def hornbill_def honeymoon_def sample_store_def)
qed

lemma booked_store_eq:
  "booked_store =
     sample_store\<lparr>bookings :=
         [\<lparr>bookingData.cottageId = 10, packageId = 20, checkInDate = 1717200000000,
           checkOutDate = 1717459200000, adults = 2, children = 0, customerInfo = [],
           specialRequests = [], booking.ident = 30, totalCost = 550,
           booking.status = ''Pending'', paymentStatus = ''Pending'',
           booking.createdDate = 0, booking.updatedDate = 0\<rparr>],
       nextId := 31,
       availability := map (reserved 0 10 30) [1717200000000, 1717286400000, 1717372800000]\<rparr>"
  by (simp add: booked_store_def sample_create Let_def)

lemma booked_create:
  "createBooking 1 booked_store sample_stay =
     (let b = \<lparr>bookingData.cottageId = 10, packageId = 20, checkInDate = 1717200000000,
                checkOutDate = 1717459200000, adults = 2, children = 0, customerInfo = [],
                specialRequests = [], booking.ident = 31, totalCost = 550,
                booking.status = ''Pending'', paymentStatus = ''Pending'',
                booking.createdDate = 1, booking.updatedDate = 1\<rparr>
      in (Inr b, booked_store\<lparr>bookings := bookings booked_store @ [b], nextId := 32,
            availability := availability booked_store @
               map (reserved 1 10 31) [1717200000000, 1717286400000, 1717372800000]\<rparr>))"
proof -
  have l: "updateAvailability_loop 1 10 31 False 1717200000000 1717459200000 [] =
             map (reserved 1 10 31) [1717200000000, 1717286400000, 1717372800000]"
    by (subst loop_three) (simp_all add: msPerDay_def)
  have c: "get_cottage booked_store (bookingData.cottageId sample_stay) = Some hornbill"
    and p: "getPackageById booked_store (bookingData.packageId sample_stay) = Some honeymoon"
    and a: "bookingData.adults sample_stay \<le> maxAdults hornbill"
    by (simp_all add: sample_stay_def hornbill_def honeymoon_def booked_store_eq sample_store_def
          get_cottage_def getPackageById_def)
  have i: "nextId booked_store = 30 + 1"
    by (simp add: booked_store_eq)
  show ?thesis
    unfolding createBooking_success [OF c a p]
    by (simp add: sample_stay_def sample_nights l i Let_def hornbill_def honeymoon_def)
qed

lemma checkAvailability_conflict:
  assumes "r \<in> set (availability s)"
    and "availabilityRecord.cottageId r = cid"
    and "startOfDay checkIn \<le> availabilityRecord.date r"
    and "availabilityRecord.date r < startOfDay checkOut"
    and "\<not> availabilityRecord.isAvailable r"
  shows "\<not> availabilityResult.isAvailable (checkAvailability s cid checkIn checkOut)"
proof -
  have "r \<in> set (conflictingBookings s cid (startOfDay checkIn) (startOfDay checkOut))"
    using assms by (simp add: conflictingBookings_def)
  then have "conflictingBookings s cid (startOfDay checkIn) (startOfDay checkOut) \<noteq> []"
    by auto
  then show ?thesis
    by (simp add: checkAvailability_def Let_def)
qed

text \<open>
  C1, as the claim states it, fails: \<^verbatim>\<open>ReservationService.createBooking\<close> does not look at
  the availability records (the endpoints do, before they call it), so it also succeeds on
  a range that is reserved. Booking the sample stay a second time succeeds as booking 31,
  and the range then holds six records, three of them of booking 30.
\<close>

theorem createBooking_double_booking:
  "map_sum id booking.ident (fst (createBooking 1 booked_store sample_stay)) = Inr 31
   \<and> map availabilityRecord.bookingId
        (recordsInRange (snd (createBooking 1 booked_store sample_stay)) 10
           1717200000000 1717459200000)
      = [Some 30, Some 30, Some 30, Some 31, Some 31, Some 31]"
  unfolding booked_create
  by (simp add: Let_def recordsInRange_def booked_store_eq reserved_def)

text \<open>
  C1 (amended): when \<^verbatim>\<open>createBooking\<close> succeeds for cottage C over a range of 3 nights
  \<open>[d0, d3)\<close> in which the store held no AvailabilityRecord for C, it writes exactly 3
  records, exactly these 3 exist afterwards for C in the range: one per day, dated \<open>d0\<close>,
  \<open>d0\<close> + 1 day and \<open>d0\<close> + 2 days, each with isAvailable = false and bookingId the new
  booking's id; and an availability check for C over \<open>[d0, d3)\<close> then returns false.
\<close>

theorem createBooking_three_nights:
  assumes ok: "createBooking now s bd = (Inr b, s')"
    and three: "calculateNights (bookingData.checkInDate bd) (bookingData.checkOutDate bd) = 3"
    and free: "recordsInRange s (bookingData.cottageId bd) (bookingData.checkInDate bd)
                 (bookingData.checkOutDate bd) = []"
  shows "availability s' = availability s @
           map (reserved now (bookingData.cottageId bd) (booking.ident b))
             [bookingData.checkInDate bd, bookingData.checkInDate bd + msPerDay,
              bookingData.checkInDate bd + 2 * msPerDay]
       \<and> recordsInRange s' (bookingData.cottageId bd) (bookingData.checkInDate bd)
             (bookingData.checkOutDate bd) =
           map (reserved now (bookingData.cottageId bd) (booking.ident b))
             [bookingData.checkInDate bd, bookingData.checkInDate bd + msPerDay,
              bookingData.checkInDate bd + 2 * msPerDay]
       \<and> \<not> availabilityResult.isAvailable
             (checkAvailability s' (bookingData.cottageId bd) (bookingData.checkInDate bd)
                (bookingData.checkOutDate bd))"
proof -
  let ?a = "bookingData.checkInDate bd" and ?e = "bookingData.checkOutDate bd"
  let ?cid = "bookingData.cottageId bd"
  from three have lo: "?a + 2 * msPerDay < ?e" and hi: "?e \<le> ?a + 3 * msPerDay"
    by (simp_all add: nights_three)
  have D: "0 < msPerDay" by (rule msPerDay_pos)
  from createBooking_Inr [OF ok] obtain c p where
    c: "get_cottage s ?cid = Some c" and a: "bookingData.adults bd \<le> maxAdults c"
    and p: "getPackageById s (bookingData.packageId bd) = Some p"
    by blast
  from ok have b: "booking.ident b = nextId s"
    and s': "availability s' = availability s @
               updateAvailability_loop now ?cid (nextId s) False ?a ?e []"
    by (auto simp: createBooking_success [OF c a p] Let_def)
  have av: "availability s' = availability s @
              map (reserved now ?cid (booking.ident b)) [?a, ?a + msPerDay, ?a + 2 * msPerDay]"
    by (simp add: s' b loop_three [OF lo hi])
  have inr: "recordsInRange s' ?cid ?a ?e =
              map (reserved now ?cid (booking.ident b)) [?a, ?a + msPerDay, ?a + 2 * msPerDay]"
    using free lo D by (simp add: recordsInRange_def av reserved_def)
  have "reserved now ?cid (booking.ident b) ?a \<in> set (availability s')"
    by (simp add: av)
  then have "\<not> availabilityResult.isAvailable (checkAvailability s' ?cid ?a ?e)"
    by (rule checkAvailability_conflict)
       (simp_all add: reserved_def startOfDay_le less_imp_le startOfDay_after [OF lo])
  with av inr show ?thesis by simp
qed

theorem createBooking_three_nights_witness:
  "createBooking 0 sample_store sample_stay = (Inr (hd (bookings booked_store)), booked_store)
   \<and> calculateNights 1717200000000 1717459200000 = 3
   \<and> recordsInRange sample_store 10 1717200000000 1717459200000 = []
   \<and> map availabilityRecord.date (recordsInRange booked_store 10 1717200000000 1717459200000)
       = [1717200000000, 1717286400000, 1717372800000]
   \<and> map availabilityRecord.bookingId (recordsInRange booked_store 10 1717200000000 1717459200000)
       = [Some 30, Some 30, Some 30]
   \<and> \<not> availabilityResult.isAvailable (checkAvailability booked_store 10 1717200000000 1717459200000)"
proof -
  have ok: "createBooking 0 sample_store sample_stay = (Inr (hd (bookings booked_store)), booked_store)"
    by (simp add: booked_store_eq sample_create Let_def)
  have three: "calculateNights (bookingData.checkInDate sample_stay)
                 (bookingData.checkOutDate sample_stay) = 3"
    by (simp add: sample_stay_def sample_nights)
  have free: "recordsInRange sample_store (bookingData.cottageId sample_stay)
                (bookingData.checkInDate sample_stay) (bookingData.checkOutDate sample_stay) = []"
    by (simp add: recordsInRange_def sample_store_def)
  from createBooking_three_nights [OF ok three free] ok three free
  show ?thesis
    by (simp add: sample_stay_def reserved_def msPerDay_def booked_store_eq)
qed

subsection \<open>The availability check\<close>

text \<open>
  C2, as the claim states it, fails: with no record at all for the cottage, the check still
  returns isAvailable = false when the cottage is inactive.
\<close>

theorem checkAvailability_inactive_cottage:
  "recordsInRange closed_store 10 1717200000000 1717459200000 = []
   \<and> \<not> availabilityResult.isAvailable (checkAvailability closed_store 10 1717200000000 1717459200000)"
  by (simp add: closed_store_def sample_store_def hornbill_def recordsInRange_def
        checkAvailability_def conflictingBookings_def get_cottage_def Let_def)

text \<open>
  C2 (amended): the availability check returns isAvailable = true if and only if the cottage
  exists and is active and no AvailabilityRecord exists for it with isAvailable = false and a
  date in \<open>[start, end)\<close>, both bounds taken at 00:00 of their day.
\<close>

theorem checkAvailability_iff:
  "availabilityResult.isAvailable (checkAvailability s cid checkIn checkOut) \<longleftrightarrow>
     (\<forall>r \<in> set (availability s).
        \<not> (availabilityRecord.cottageId r = cid \<and> startOfDay checkIn \<le> availabilityRecord.date r
           \<and> availabilityRecord.date r < startOfDay checkOut
           \<and> availabilityRecord.isAvailable r = False))
     \<and> (\<exists>c. get_cottage s cid = Some c \<and> cottage.isActive c)"
  by (auto simp: checkAvailability_def conflictingBookings_def Let_def filter_empty_conv
           split: option.splits)

theorem checkAvailability_iff_witness:
  "availabilityResult.isAvailable (checkAvailability sample_store 10 1717200000000 1717459200000)
   \<and> get_cottage sample_store 10 = Some hornbill \<and> cottage.isActive hornbill
   \<and> availability sample_store = []"
  using checkAvailability_iff [of sample_store 10 1717200000000 1717459200000]
  by (simp add: sample_store_def hornbill_def get_cottage_def)

subsection \<open>Costs\<close>

text \<open>
  C4: in \<^verbatim>\<open>createBooking\<close> and in \<^verbatim>\<open>calculateBookingCost\<close> (the web method and the HTTP
  function), roomCost is the cottage's basePricePerNight times the nights, packageCost is
  the package's price, not multiplied by the nights, and totalCost is their sum.
\<close>

theorem booking_cost:
  assumes "get_cottage s cid = Some c" and "getPackageById s pid = Some p"
  shows "(bookingData.cottageId bd = cid \<and> bookingData.packageId bd = pid
            \<and> bookingData.adults bd \<le> maxAdults c
            \<longrightarrow> (\<exists>b s'. createBooking now s bd = (Inr b, s')
                   \<and> booking.totalCost b
                       = basePricePerNight c
                           * calculateNights (bookingData.checkInDate bd) (bookingData.checkOutDate bd)
                         + price p))
       \<and> (request.cottageId req = Some cid \<and> request.packageId req = Some pid
            \<and> request.checkInDate req = Some checkIn \<and> request.checkOutDate req = Some checkOut
            \<longrightarrow> (\<exists>cb. calculateBookingCost s req = Success cb
                    \<and> post_calculateBookingCost s (Some req) = (200, Success cb)
                    \<and> roomCost cb = basePricePerNight c * calculateNights checkIn checkOut
                    \<and> packageCost cb = price p
                    \<and> costBreakdown.totalCost cb = roomCost cb + packageCost cb))"
proof (intro conjI impI)
  assume "bookingData.cottageId bd = cid \<and> bookingData.packageId bd = pid
            \<and> bookingData.adults bd \<le> maxAdults c"
  with assms show "\<exists>b s'. createBooking now s bd = (Inr b, s')
                   \<and> booking.totalCost b
                       = basePricePerNight c
                           * calculateNights (bookingData.checkInDate bd) (bookingData.checkOutDate bd)
                         + price p"
    by (simp add: createBooking_success Let_def)
next
  assume "request.cottageId req = Some cid \<and> request.packageId req = Some pid
            \<and> request.checkInDate req = Some checkIn \<and> request.checkOutDate req = Some checkOut"
  with assms show "\<exists>cb. calculateBookingCost s req = Success cb
                    \<and> post_calculateBookingCost s (Some req) = (200, Success cb)
                    \<and> roomCost cb = basePricePerNight c * calculateNights checkIn checkOut
                    \<and> packageCost cb = price p
                    \<and> costBreakdown.totalCost cb = roomCost cb + packageCost cb"
    by (simp add: calculateBookingCost_def post_calculateBookingCost_def Let_def)
qed

theorem booking_cost_witness:
  "get_cottage sample_store 10 = Some hornbill \<and> getPackageById sample_store 20 = Some honeymoon
   \<and> (\<exists>b s'. createBooking 0 sample_store sample_stay = (Inr b, s') \<and> booking.totalCost b = 550)
   \<and> (\<exists>cb. calculateBookingCost sample_store sample_request = Success cb
          \<and> post_calculateBookingCost sample_store (Some sample_request) = (200, Success cb)
          \<and> roomCost cb = 450 \<and> packageCost cb = 100 \<and> costBreakdown.totalCost cb = 550)"
proof -
  have c: "get_cottage sample_store 10 = Some hornbill"
    and p: "getPackageById sample_store 20 = Some honeymoon"
    by (simp_all add: get_cottage_def getPackageById_def sample_store_def hornbill_def honeymoon_def)
  from booking_cost [OF c p, where bd = sample_stay and req = sample_request and now = 0
      and checkIn = 1717200000000 and checkOut = 1717459200000] c p
  show ?thesis
    by (auto simp: sample_stay_def sample_request_def hornbill_def honeymoon_def sample_nights)
qed

subsection \<open>Failures of a booking\<close>

text \<open>
  C5: when the adults of a \<^verbatim>\<open>createBooking\<close> input exceed the cottage's maxAdults, the
  call fails with a ValidationError and the store is unchanged: no Booking and no
  AvailabilityRecord is created.
\<close>

theorem createBooking_too_many_adults:
  assumes "get_cottage s (bookingData.cottageId bd) = Some c"
    and "bookingData.adults bd > maxAdults c"
  shows "createBooking now s bd = (Inl (ValidationError (MaxAdults (maxAdults c))), s)"
  using assms by (simp add: createBooking_def)

theorem createBooking_too_many_adults_witness:
  "get_cottage sample_store (bookingData.cottageId (sample_stay\<lparr>bookingData.adults := 3\<rparr>))
     = Some hornbill
   \<and> bookingData.adults (sample_stay\<lparr>bookingData.adults := 3\<rparr>) > maxAdults hornbill
   \<and> createBooking 0 sample_store (sample_stay\<lparr>bookingData.adults := 3\<rparr>)
       = (Inl (ValidationError (MaxAdults 2)), sample_store)"
proof -
  have c: "get_cottage sample_store (bookingData.cottageId (sample_stay\<lparr>bookingData.adults := 3\<rparr>))
             = Some hornbill"
    by (simp add: get_cottage_def sample_store_def hornbill_def sample_stay_def)
  have a: "bookingData.adults (sample_stay\<lparr>bookingData.adults := 3\<rparr>) > maxAdults hornbill"
    by (simp add: hornbill_def)
  from createBooking_too_many_adults [OF c a, where now = 0] c a show ?thesis
    by (simp add: hornbill_def)
qed

text \<open>
  C6: a \<^verbatim>\<open>createBooking\<close> request whose range is unavailable when the endpoint re-checks
  it fails with Conflict, and no Booking is created: the store is unchanged. This holds for
  the web method and for the HTTP function.
\<close>

theorem createBooking_conflict:
  assumes "request.cottageId req = Some cid" and "request.packageId req = Some pid"
    and "request.checkInDate req = Some checkIn" and "request.checkOutDate req = Some checkOut"
    and "\<not> availabilityResult.isAvailable (checkAvailability s cid checkIn checkOut)"
  shows "(request.adults req = Some a \<and> 1 \<le> a \<and> request.customerInfo req = Some info
            \<longrightarrow> webMethods_createBooking now s req = (Failure Conflict, s))
       \<and> (request.adults req = Some a \<and> a \<noteq> 0
            \<longrightarrow> post_createBooking now s (Some req) = ((200, Failure Conflict), s))"
  using assms
  by (auto simp: webMethods_createBooking_def post_createBooking_def falsy_def orElse_def)

theorem createBooking_conflict_witness:
  "\<not> availabilityResult.isAvailable (checkAvailability booked_store 10 1717200000000 1717459200000)
   \<and> webMethods_createBooking 1 booked_store sample_request = (Failure Conflict, booked_store)
   \<and> post_createBooking 1 booked_store (Some sample_request) = ((200, Failure Conflict), booked_store)"
proof -
  have r: "request.cottageId sample_request = Some 10" "request.packageId sample_request = Some 20"
    "request.checkInDate sample_request = Some 1717200000000"
    "request.checkOutDate sample_request = Some 1717459200000"
    by (simp_all add: sample_request_def)
  have u: "\<not> availabilityResult.isAvailable
              (checkAvailability booked_store 10 1717200000000 1717459200000)"
    by (simp add: checkAvailability_def conflictingBookings_def booked_store_eq reserved_def
          startOfDay_def msPerDay_def Let_def)
  from createBooking_conflict [OF r u, where a = 2 and info = "[(''name'', ''A. Guest'')]"
      and now = 1] u
  show ?thesis
    by (simp add: sample_request_def)
qed

subsection \<open>Dates in the wrong order\<close>

text \<open>
  C10, as the claim states it, fails. An input that passes the adults check, with
  checkOutDate before checkInDate and a packageId that no package has, raises a TypeError
  (\<^verbatim>\<open>packageData.price\<close> of \<^verbatim>\<open>null\<close>) and persists nothing. And with a negative price per
  night the totalCost of the sample stay taken backwards is 550, above the packageCost 100.
\<close>

theorem createBooking_unknown_package:
  "bookingData.adults unknown_package_stay \<le> maxAdults hornbill
   \<and> bookingData.checkOutDate unknown_package_stay \<le> bookingData.checkInDate unknown_package_stay
   \<and> createBooking 0 sample_store unknown_package_stay = (Inl TypeError, sample_store)
   \<and> map booking.totalCost (bookings (snd (createBooking 0 refund_store backwards_stay))) = [550]
   \<and> price honeymoon = 100"
proof -
  let ?c = "hornbill\<lparr>basePricePerNight := - 150\<rparr>"
  have c: "get_cottage refund_store (bookingData.cottageId backwards_stay) = Some ?c"
    and a: "bookingData.adults backwards_stay \<le> maxAdults ?c"
    and p: "getPackageById refund_store (bookingData.packageId backwards_stay) = Some honeymoon"
    by (simp_all add: backwards_stay_def sample_stay_def refund_store_def sample_store_def hornbill_def
          honeymoon_def get_cottage_def getPackageById_def)
  have n: "calculateNights (bookingData.checkInDate backwards_stay)
             (bookingData.checkOutDate backwards_stay) = - 3"
    by (simp add: backwards_stay_def sample_stay_def calculateNights_div msPerDay_def)
  have e: "bookings refund_store = []"
    by (simp add: refund_store_def sample_store_def)
  have "map booking.totalCost (bookings (snd (createBooking 0 refund_store backwards_stay))) = [550]"
    unfolding createBooking_success [OF c a p]
    by (simp add: Let_def n e honeymoon_def)
  moreover have "createBooking 0 sample_store unknown_package_stay = (Inl TypeError, sample_store)"
    by (simp add: createBooking_def unknown_package_stay_def backwards_stay_def sample_stay_def
          sample_store_def hornbill_def honeymoon_def get_cottage_def getPackageById_def)
  ultimately show ?thesis
    by (simp add: unknown_package_stay_def backwards_stay_def sample_stay_def hornbill_def
          honeymoon_def)
qed

text \<open>
  C10 (amended): a \<^verbatim>\<open>createBooking\<close> input whose package exists, that passes the adults
  check, with checkOutDate not after checkInDate, raises no error in the service: the
  Booking is persisted, its nights are not positive, its totalCost is basePricePerNight
  times nights plus packageCost, which is at most packageCost when basePricePerNight is not
  negative, and no AvailabilityRecord is written, since the loop over the days runs no
  iteration.
\<close>

theorem createBooking_no_date_validation:
  assumes "get_cottage s (bookingData.cottageId bd) = Some c"
    and "bookingData.adults bd \<le> maxAdults c"
    and "getPackageById s (bookingData.packageId bd) = Some p"
    and "bookingData.checkOutDate bd \<le> bookingData.checkInDate bd"
  shows "\<exists>b s'. createBooking now s bd = (Inr b, s')
           \<and> bookings s' = bookings s @ [b]
           \<and> availability s' = availability s
           \<and> calculateNights (bookingData.checkInDate bd) (bookingData.checkOutDate bd) \<le> 0
           \<and> booking.totalCost b
               = basePricePerNight c
                   * calculateNights (bookingData.checkInDate bd) (bookingData.checkOutDate bd)
                 + price p
           \<and> (0 \<le> basePricePerNight c \<longrightarrow> booking.totalCost b \<le> price p)"
proof -
  let ?n = "calculateNights (bookingData.checkInDate bd) (bookingData.checkOutDate bd)"
  have "0 \<le> (bookingData.checkInDate bd - bookingData.checkOutDate bd) div msPerDay"
    using assms(4) msPerDay_pos by (simp add: pos_imp_zdiv_nonneg_iff)
  then have n: "?n \<le> 0"
    by (simp add: calculateNights_div)
  have l: "updateAvailability_loop now (bookingData.cottageId bd) (nextId s) False
             (bookingData.checkInDate bd) (bookingData.checkOutDate bd) [] = []"
    using assms(4) by (simp add: loop_stop)
  have m: "0 \<le> basePricePerNight c \<Longrightarrow> basePricePerNight c * ?n \<le> 0"
    using n by (simp add: mult_nonneg_nonpos)
  show ?thesis
    using n m by (simp add: createBooking_success [OF assms(1-3)] Let_def l)
qed

theorem createBooking_no_date_validation_witness:
  "get_cottage sample_store (bookingData.cottageId backwards_stay) = Some hornbill
   \<and> bookingData.adults backwards_stay \<le> maxAdults hornbill
   \<and> getPackageById sample_store (bookingData.packageId backwards_stay) = Some honeymoon
   \<and> bookingData.checkOutDate backwards_stay \<le> bookingData.checkInDate backwards_stay
   \<and> \<not> isl (fst (createBooking 0 sample_store backwards_stay))
   \<and> map booking.totalCost (bookings (snd (createBooking 0 sample_store backwards_stay))) = [- 350]
   \<and> availability (snd (createBooking 0 sample_store backwards_stay)) = []"
proof -
  have c: "get_cottage sample_store (bookingData.cottageId backwards_stay) = Some hornbill"
    and a: "bookingData.adults backwards_stay \<le> maxAdults hornbill"
    and p: "getPackageById sample_store (bookingData.packageId backwards_stay) = Some honeymoon"
    and d: "bookingData.checkOutDate backwards_stay \<le> bookingData.checkInDate backwards_stay"
    by (simp_all add: backwards_stay_def sample_stay_def sample_store_def hornbill_def honeymoon_def
          get_cottage_def getPackageById_def)
  have n: "calculateNights (bookingData.checkInDate backwards_stay)
             (bookingData.checkOutDate backwards_stay) = - 3"
    by (simp add: backwards_stay_def sample_stay_def calculateNights_div msPerDay_def)
  from createBooking_no_date_validation [OF c a p d, of 0] obtain b s' where
    r: "createBooking 0 sample_store backwards_stay = (Inr b, s')"
    and bs: "bookings s' = bookings sample_store @ [b]"
    and av: "availability s' = availability sample_store"
    and t: "booking.totalCost b = basePricePerNight hornbill
               * calculateNights (bookingData.checkInDate backwards_stay)
                   (bookingData.checkOutDate backwards_stay)
             + price honeymoon"
    by blast
  from t have "booking.totalCost b = - 350"
    by (simp add: n hornbill_def honeymoon_def)
  with c a p d r bs av show ?thesis
    by (simp add: sample_store_def)
qed

subsection \<open>Two calls for the same range\<close>

lemma webMethods_createBooking_split:
  "webMethods_createBooking now s req =
     (case createBooking_check s req of
        Inl r \<Rightarrow> (r, s)
      | Inr bd \<Rightarrow> createBooking_reserve now s bd)"
  by (auto simp: webMethods_createBooking_def createBooking_check_def createBooking_reserve_def Let_def
           split: option.splits)

lemma interleaved_both:
  assumes "createBooking_check s reqA = Inr bdA" and "createBooking_check s reqB = Inr bdB"
    and "createBooking nowA s bdA = (Inr bA, s1)" and "createBooking nowB s1 bdB = (Inr bB, s2)"
  shows "interleaved nowA nowB s reqA reqB = (Success bA, Success bB, s2)"
  using assms by (simp add: interleaved_def createBooking_reserve_def)

lemma sample_check:
  "createBooking_check sample_store sample_request =
     Inr (toBookingData 10 20 1717200000000 1717459200000 2 sample_request)"
  by (simp add: createBooking_check_def sample_request_def falsy_def orElse_def Let_def
        checkAvailability_def conflictingBookings_def sample_store_def get_cottage_def hornbill_def)

text \<open>
  C9, as the claim states it, fails: when two calls for the sample stay run at the same time
  and both availability checks are answered before either call reserves, both succeed, as
  bookings 30 and 31, and the range holds the records of both.
\<close>

theorem interleaved_double_booking:
  "created_id (fst (interleaved 0 1 sample_store sample_request sample_request)) = Some 30
   \<and> created_id (fst (snd (interleaved 0 1 sample_store sample_request sample_request))) = Some 31
   \<and> map availabilityRecord.bookingId
        (recordsInRange (snd (snd (interleaved 0 1 sample_store sample_request sample_request))) 10
           1717200000000 1717459200000)
      = [Some 30, Some 30, Some 30, Some 31, Some 31, Some 31]"
proof -
  let ?bd = "toBookingData 10 20 1717200000000 1717459200000 2 sample_request"
  have bd: "bookingData.cottageId ?bd = 10" "bookingData.packageId ?bd = 20"
    "bookingData.checkInDate ?bd = 1717200000000" "bookingData.checkOutDate ?bd = 1717459200000"
    "bookingData.adults ?bd \<le> maxAdults hornbill"
    by (simp_all add: toBookingData_def hornbill_def)
  have s0: "cottages sample_store = [hornbill]" "packages sample_store = [honeymoon]"
    "nextId sample_store = 30" "availability sample_store = []"
    by (simp_all add: sample_store_def)
  have h: "cottage.ident hornbill = 10" "package.ident honeymoon = 20"
    by (simp_all add: hornbill_def honeymoon_def)
  have c: "get_cottage sample_store (bookingData.cottageId ?bd) = Some hornbill"
    and p: "getPackageById sample_store (bookingData.packageId ?bd) = Some honeymoon"
    by (simp_all add: bd get_cottage_def getPackageById_def s0 h)
  from createBooking_succeeds [OF c bd(5) p] obtain bA s1 where
    A: "createBooking 0 sample_store ?bd = (Inr bA, s1)" by blast
  note eA = createBooking_effect [OF A]
  have c1: "get_cottage s1 (bookingData.cottageId ?bd) = Some hornbill"
    and p1: "getPackageById s1 (bookingData.packageId ?bd) = Some honeymoon"
    by (simp_all add: bd get_cottage_def getPackageById_def eA s0 h)
  from createBooking_succeeds [OF c1 bd(5) p1] obtain bB s2 where
    B: "createBooking 1 s1 ?bd = (Inr bB, s2)" by blast
  note eB = createBooking_effect [OF B]
  have i: "interleaved 0 1 sample_store sample_request sample_request
             = (Success bA, Success bB, s2)"
    using sample_check sample_check A B by (rule interleaved_both)
  have iA: "booking.ident bA = 30" and iB: "booking.ident bB = 31"
    by (simp_all add: eA eB s0)
  have av: "availability s2 =
              map (reserved 0 10 30) [1717200000000, 1717286400000, 1717372800000]
              @ map (reserved 1 10 31) [1717200000000, 1717286400000, 1717372800000]"
    by (simp add: eB(6) eB(1) [symmetric] iB eA(6) eA(1) [symmetric] iA bd s0 sample_loop)
  show ?thesis
    by (simp add: i created_id_def iA iB recordsInRange_def av reserved_def)
qed

text \<open>
  C9 (amended): of two \<^verbatim>\<open>createBooking\<close> calls for the same cottage and the same date
  range, with the check-out on a later day than the check-in, that run one after the
  other, exactly one succeeds: when the first succeeds, the second receives Conflict and
  leaves the store as the first left it.
\<close>

theorem createBooking_one_after_the_other:
  assumes first: "webMethods_createBooking nowA s reqA = (Success b, s1)"
    and A: "request.cottageId reqA = Some cid" "request.checkInDate reqA = Some checkIn"
           "request.checkOutDate reqA = Some checkOut"
    and B: "request.cottageId reqB = Some cid" "request.checkInDate reqB = Some checkIn"
           "request.checkOutDate reqB = Some checkOut"
    and wf: "request.packageId reqB = Some pid" "request.adults reqB = Some a" "1 \<le> a"
            "request.customerInfo reqB = Some info"
    and day: "checkIn < startOfDay checkOut"
  shows "webMethods_createBooking nowB s1 reqB = (Failure Conflict, s1)"
proof -
  from first A obtain bd where
    bd: "createBooking nowA s bd = (Inr b, s1)"
    and f: "bookingData.cottageId bd = cid" "bookingData.checkInDate bd = checkIn"
           "bookingData.checkOutDate bd = checkOut"
    by (auto simp: webMethods_createBooking_def toBookingData_def Let_def
             split: option.splits if_splits prod.splits sum.splits)
  have "startOfDay checkOut \<le> checkOut" by (rule startOfDay_le)
  with day have lt: "bookingData.checkInDate bd < bookingData.checkOutDate bd"
    by (simp add: f)
  have "reserved nowA cid (booking.ident b) checkIn \<in> set (availability s1)"
    using createBooking_reserves_first [OF bd lt] by (simp add: f)
  then have "\<not> availabilityResult.isAvailable (checkAvailability s1 cid checkIn checkOut)"
    by (rule checkAvailability_conflict) (simp_all add: reserved_def startOfDay_le day)
  with B wf show ?thesis
    by (simp add: webMethods_createBooking_def falsy_def orElse_def)
qed

theorem createBooking_one_after_the_other_witness:
  "created_id (fst (webMethods_createBooking 0 sample_store sample_request)) = Some 30
   \<and> (1717200000000 :: int) < startOfDay 1717459200000
   \<and> webMethods_createBooking 1 (snd (webMethods_createBooking 0 sample_store sample_request))
        sample_request
       = (Failure Conflict, snd (webMethods_createBooking 0 sample_store sample_request))"
proof -
  let ?bd = "toBookingData 10 20 1717200000000 1717459200000 2 sample_request"
  have bd: "bookingData.cottageId ?bd = 10" "bookingData.packageId ?bd = 20"
    "bookingData.adults ?bd \<le> maxAdults hornbill"
    by (simp_all add: toBookingData_def hornbill_def)
  have c: "get_cottage sample_store (bookingData.cottageId ?bd) = Some hornbill"
    and p: "getPackageById sample_store (bookingData.packageId ?bd) = Some honeymoon"
    by (simp_all add: bd get_cottage_def getPackageById_def sample_store_def hornbill_def
          honeymoon_def)
  from createBooking_succeeds [OF c bd(3) p] obtain b s1 where
    A: "createBooking 0 sample_store ?bd = (Inr b, s1)" by blast
  have i: "booking.ident b = 30"
    using createBooking_effect(1) [OF A] by (simp add: sample_store_def)
  have first: "webMethods_createBooking 0 sample_store sample_request = (Success b, s1)"
    by (simp add: webMethods_createBooking_split sample_check createBooking_reserve_def A)
  have day: "(1717200000000 :: int) < startOfDay 1717459200000"
    by (simp add: startOfDay_def msPerDay_def)
  have r: "request.cottageId sample_request = Some 10"
    "request.checkInDate sample_request = Some 1717200000000"
    "request.checkOutDate sample_request = Some 1717459200000"
    and w: "request.packageId sample_request = Some 20" "request.adults sample_request = Some 2"
    "(1::int) \<le> 2" "request.customerInfo sample_request = Some [(''name'', ''A. Guest'')]"
    by (simp_all add: sample_request_def)
  from createBooking_one_after_the_other [OF first r r w day, where nowB = 1] day
  show ?thesis by (simp add: first created_id_def i)
qed

subsection \<open>Status updates\<close>

lemma find_map_update:
  assumes "find (\<lambda>b. booking.ident b = bid) xs = Some b" and "booking.ident b' = bid"
  shows "find (\<lambda>b. booking.ident b = bid) (map (\<lambda>x. if booking.ident x = bid then b' else x) xs) = Some b'"
  using assms by (induction xs) (auto split: if_splits)

lemma find_ident:
  "find (\<lambda>b. booking.ident b = bid) xs = Some b \<Longrightarrow> booking.ident b = bid"
  by (induction xs) (auto split: if_splits)

lemma map_update_twice:
  assumes "booking.ident b1 = bid"
  shows "map (\<lambda>x. if booking.ident x = bid then b2 else x)
           (map (\<lambda>x. if booking.ident x = bid then b1 else x) xs)
         = map (\<lambda>x. if booking.ident x = bid then b2 else x) xs"
  using assms by (induction xs) auto

lemma map_update_idents:
  assumes "booking.ident b1 = bid"
  shows "map booking.ident (map (\<lambda>x. if booking.ident x = bid then b1 else x) xs)
         = map booking.ident xs"
  using assms by (induction xs) auto

text \<open>
  C7: \<^verbatim>\<open>updateBookingStatus(id, "Confirmed")\<close> called twice in succession returns what one
  call returns and leaves the store that one call leaves (updatedDate is the time of the
  last call), and it creates no record: the bookings keep their ids, in the same order.
\<close>

theorem updateBookingStatus_twice:
  "updateBookingStatus t2 (snd (updateBookingStatus t1 s bid ''Confirmed'')) bid ''Confirmed''
     = updateBookingStatus t2 s bid ''Confirmed''
   \<and> map booking.ident
         (bookings (snd (updateBookingStatus t2 (snd (updateBookingStatus t1 s bid ''Confirmed''))
                           bid ''Confirmed'')))
       = map booking.ident (bookings s)"
proof (cases "get_booking s bid")
  case None
  then show ?thesis by (simp add: updateBookingStatus_def update_booking_def)
next
  case (Some b)
  let ?b1 = "b\<lparr>booking.status := ''Confirmed'', booking.updatedDate := t1\<rparr>"
  let ?s1 = "s\<lparr>bookings := map (\<lambda>x. if booking.ident x = bid then ?b1 else x) (bookings s)\<rparr>"
  from Some have f: "find (\<lambda>b. booking.ident b = bid) (bookings s) = Some b"
    by (simp add: get_booking_def)
  then have i: "booking.ident b = bid" by (rule find_ident)
  have 1: "snd (updateBookingStatus t1 s bid ''Confirmed'') = ?s1"
    using Some by (simp add: updateBookingStatus_def update_booking_def Let_def)
  have g1: "get_booking ?s1 bid = Some ?b1"
    using find_map_update [OF f, of ?b1] i by (simp add: get_booking_def)
  show ?thesis
    unfolding 1
    using Some g1 i
    by (simp add: updateBookingStatus_def update_booking_def Let_def map_update_twice
          map_update_idents)
qed

theorem updateBookingStatus_twice_witness:
  "fst (updateBookingStatus 6 (snd (updateBookingStatus 5 booked_store 30 ''Confirmed'')) 30 ''Confirmed'')
     = fst (updateBookingStatus 6 booked_store 30 ''Confirmed'')
   \<and> map booking.status (bookings (snd (updateBookingStatus 6
          (snd (updateBookingStatus 5 booked_store 30 ''Confirmed'')) 30 ''Confirmed'')))
       = [''Confirmed'']
   \<and> map booking.ident (bookings (snd (updateBookingStatus 6
          (snd (updateBookingStatus 5 booked_store 30 ''Confirmed'')) 30 ''Confirmed'')))
       = [30]"
proof -
  have "map booking.status (bookings (snd (updateBookingStatus 6 booked_store 30 ''Confirmed'')))
          = [''Confirmed'']"
    by (simp add: updateBookingStatus_def update_booking_def get_booking_def booked_store_eq
          sample_store_def Let_def)
  moreover have "map booking.ident (bookings booked_store) = [30]"
    by (simp add: booked_store_eq sample_store_def)
  moreover note updateBookingStatus_twice [of 6 5 booked_store 30]
  ultimately show ?thesis
    by metis
qed

subsection \<open>Safari bookings\<close>

text \<open>
  C8: \<^verbatim>\<open>createSafariBookings(bookingId, entries)\<close> inserts exactly one SafariBooking for each
  entry, after the ones that exist, with status Pending, the given bookingId, the entry's
  date and time, and safariType "Standard" when the entry has no type (the entry's type when
  it has one); a single entry with time "Morning" and no type creates exactly one
  SafariBooking, with status Pending and safariType "Standard".
\<close>

theorem createSafariBookings_inserts:
  "fst (createSafariBookings now s bid entries) = Inr (length entries)
   \<and> length (safariBookings (snd (createSafariBookings now s bid entries)))
       = length (safariBookings s) + length entries
   \<and> take (length (safariBookings s)) (safariBookings (snd (createSafariBookings now s bid entries)))
       = safariBookings s
   \<and> (\<forall>i < length entries.
         safariBooking.status (safariBookings (snd (createSafariBookings now s bid entries))
                                 ! (length (safariBookings s) + i)) = ''Pending''
       \<and> safariBooking.bookingId (safariBookings (snd (createSafariBookings now s bid entries))
                                 ! (length (safariBookings s) + i)) = bid
       \<and> safariDate (safariBookings (snd (createSafariBookings now s bid entries))
                                 ! (length (safariBookings s) + i)) = safari.date (entries ! i)
       \<and> safariTime (safariBookings (snd (createSafariBookings now s bid entries))
                                 ! (length (safariBookings s) + i)) = time (entries ! i)
       \<and> (type (entries ! i) = None \<longrightarrow>
            safariType (safariBookings (snd (createSafariBookings now s bid entries))
                                 ! (length (safariBookings s) + i)) = ''Standard'')
       \<and> (\<forall>t. type (entries ! i) = Some t \<and> t \<noteq> [] \<longrightarrow>
            safariType (safariBookings (snd (createSafariBookings now s bid entries))
                                 ! (length (safariBookings s) + i)) = t))
   \<and> safariBookings (snd (createSafariBookings now s bid
                             [\<lparr>safari.date = d, time = ''Morning'', type = None\<rparr>]))
       = safariBookings s @
           [\<lparr>safariBooking.bookingId = bid, safariDate = d, safariTime = ''Morning'',
             safariBooking.status = ''Pending'', safariType = ''Standard'',
             safariBooking.createdDate = now, safariBooking.updatedDate = now\<rparr>]
   \<and> bookings (snd (createSafariBookings now s bid entries)) = bookings s
   \<and> availability (snd (createSafariBookings now s bid entries)) = availability s"
  by (simp add: createSafariBookings_def Let_def safariTypeOrStandard_def nth_append)

theorem createSafariBookings_inserts_witness:
  "safariBookings (snd (createSafariBookings 7 booked_store 30
       [\<lparr>safari.date = 1717286400000, time = ''Morning'', type = None\<rparr>,
        \<lparr>safari.date = 1717372800000, time = ''Evening'', type = Some ''Jeep''\<rparr>]))
     = [\<lparr>safariBooking.bookingId = 30, safariDate = 1717286400000, safariTime = ''Morning'',
         safariBooking.status = ''Pending'', safariType = ''Standard'',
         safariBooking.createdDate = 7, safariBooking.updatedDate = 7\<rparr>,
        \<lparr>safariBooking.bookingId = 30, safariDate = 1717372800000, safariTime = ''Evening'',
         safariBooking.status = ''Pending'', safariType = ''Jeep'',
         safariBooking.createdDate = 7, safariBooking.updatedDate = 7\<rparr>]"
proof -
  let ?es = "[\<lparr>safari.date = 1717286400000, time = ''Morning'', type = None\<rparr>,
              \<lparr>safari.date = 1717372800000, time = ''Evening'', type = Some ''Jeep''\<rparr>]"
  let ?r = "safariBookings (snd (createSafariBookings 7 booked_store 30 ?es))"
  have e: "safariBookings booked_store = []"
    by (simp add: booked_store_eq sample_store_def)
  from createSafariBookings_inserts [of 7 booked_store 30 ?es]
  have "length ?r = 2" by (simp add: e)
  moreover have "?r = safariBookings booked_store @ map (\<lambda>safari. \<lparr>safariBooking.bookingId = 30,
                            safariDate = safari.date safari,
                            safariTime = time safari,
                            safariBooking.status = ''Pending'',
                            safariType = safariTypeOrStandard (type safari),
                            safariBooking.createdDate = 7,
                            safariBooking.updatedDate = 7\<rparr>) ?es"
    by (simp add: createSafariBookings_def Let_def)
  ultimately show ?thesis
    by (simp add: e safariTypeOrStandard_def)
qed

end
